theory Spec2Isabelle
  imports Main
begin

section \<open>Descriptors, the engine and its observable calls\<close>

text \<open>
  The pipeline of \<^verbatim>\<open>retriever/lib/templates.py\<close> dispatches on the presence of
  attributes (\<^verbatim>\<open>hasattr\<close>). An optional attribute is an \<open>option\<close> field: \<open>None\<close> is
  "the object has no such attribute". A present attribute that Python treats as false
  (the empty string, or the value \<^verbatim>\<open>None\<close>) is the empty string here.
  \<^verbatim>\<open>xls_sheets\<close> is the two-element list \<^verbatim>\<open>[sheet index, workbook file name]\<close>.
\<close>

record table_obj =
  url :: "string option"
  archived :: "string option"
  format :: "string option"
  dataset_type :: "string option"
  path :: "string option"
  xls_sheets :: "(int \<times> string) option"
  geojson_data :: "string option"

text \<open>
  The attributes of the script (the dataset) that the template reads. \<open>tables\<close> is the
  dictionary \<^verbatim>\<open>self.tables\<close> in its iteration order.
\<close>

record script =
  s_name :: string
  s_url :: "string option"
  s_archived :: "string option"
  extract_all :: "bool option"
  keep_in_dir :: "bool option"
  archive_name :: "string option"
  encoding :: string
  tables :: "(string \<times> table_obj) list"

text \<open>
  The engine is an external collaborator. The template reads its \<^verbatim>\<open>name\<close>, tests it for
  the attribute \<^verbatim>\<open>spatial_support\<close>, writes \<^verbatim>\<open>debug\<close>, \<^verbatim>\<open>db_name\<close> and \<^verbatim>\<open>script\<close>
  (recorded as the name of the bound script), and calls its operations. The operation
  \<^verbatim>\<open>format_filename\<close> returns a value that is passed on to other operations, so it is a
  function parameter of the engine; every other operation is recorded as an event, in
  call order and with its arguments, and is taken to return normally.
\<close>

record engine =
  e_name :: string
  spatial_support :: "bool option"
  format_filename :: "string \<Rightarrow> string"
  debug :: bool
  db_name :: string
  bound_script :: "string option"

datatype event =
    Get_input
  | Set_engine_encoding
  | Create_db
  | Download_files_from_archive string "string list option" string bool "string option"
  | Download_file string string
  | Excel_to_csv string string "int \<times> string" string
  | Process_geojson2csv string string
  | Auto_create_table table_obj string "string option"
  | Insert_data_from_file string
  | Insert_data_from_url string
  | Insert_raster string
  | Insert_vector string
  | Disconnect_files
  | Print string

text \<open>
  The arguments of \<open>Download_files_from_archive\<close> are \<^verbatim>\<open>url\<close>, \<^verbatim>\<open>file_names\<close>,
  \<^verbatim>\<open>archive_type\<close>, \<^verbatim>\<open>keep_in_dir\<close> and \<^verbatim>\<open>archive_name\<close>; those of \<open>Auto_create_table\<close>
  are the table, \<^verbatim>\<open>url\<close> and the optional \<^verbatim>\<open>filename\<close>.
\<close>

section \<open>Control flow: exceptions, \<^verbatim>\<open>continue\<close> and \<^verbatim>\<open>return\<close>\<close>

datatype error = AttributeError string | UnboundLocalError string

datatype exit = Raise error | Continue_loop | Return_fn

text \<open>
  A piece of code yields the events it has emitted and either a value or the way it left
  the straight-line flow. Events emitted before an exception are kept.
\<close>

type_synonym 'a run = "event list \<times> (exit + 'a)"

definition ret :: "'a \<Rightarrow> 'a run" where
  "ret x = ([], Inr x)"

definition leave :: "exit \<Rightarrow> 'a run" where
  "leave x = ([], Inl x)"

definition emit :: "event \<Rightarrow> unit run" where
  "emit ev = ([ev], Inr ())"

definition then_do :: "'a run \<Rightarrow> ('a \<Rightarrow> 'b run) \<Rightarrow> 'b run" where
  "then_do m f =
     (case m of
        (evs, Inl x) \<Rightarrow> (evs, Inl x)
      | (evs, Inr a) \<Rightarrow> (case f a of (evs', r) \<Rightarrow> (evs @ evs', r)))"

text \<open>Reading an attribute that the object does not have raises \<^verbatim>\<open>AttributeError\<close>.\<close>

definition getattr :: "string \<Rightarrow> 'a option \<Rightarrow> 'a run" where
  "getattr a v = (case v of None \<Rightarrow> leave (Raise (AttributeError a)) | Some x \<Rightarrow> ret x)"

text \<open>
  The local variable \<^verbatim>\<open>url\<close> of \<^verbatim>\<open>download\<close> is assigned inside the loop only. It is
  \<open>None\<close> while unbound; reading it then raises \<^verbatim>\<open>UnboundLocalError\<close>.
\<close>

definition read_local :: "string \<Rightarrow> 'a option \<Rightarrow> 'a run" where
  "read_local x v = (case v of None \<Rightarrow> leave (Raise (UnboundLocalError x)) | Some y \<Rightarrow> ret y)"

section \<open>\<^verbatim>\<open>Script.download\<close> and \<^verbatim>\<open>Script.checkengine\<close>\<close>

text \<open>
  \<^verbatim>\<open>choose_engine\<close> lives in \<^verbatim>\<open>retriever.engines\<close>; the engine it would return for the
  empty option dictionary is the parameter \<open>chosen\<close>.
\<close>

definition checkengine :: "engine \<Rightarrow> script \<Rightarrow> engine option \<Rightarrow> engine run" where
  "checkengine chosen self eng =
     (let e = (case eng of None \<Rightarrow> chosen | Some e' \<Rightarrow> e') in
      then_do (emit Get_input) (\<lambda>_.
      then_do (ret (e\<lparr>bound_script := Some (s_name self)\<rparr>)) (\<lambda>e1.
      then_do (emit Set_engine_encoding) (\<lambda>_.
      ret e1))))"

definition Script_download :: "engine \<Rightarrow> script \<Rightarrow> engine option \<Rightarrow> bool \<Rightarrow> engine run" where
  "Script_download chosen self eng dbg =
     then_do (checkengine chosen self eng) (\<lambda>e.
     then_do (ret (e\<lparr>debug := dbg, db_name := s_name self\<rparr>)) (\<lambda>e1.
     then_do (emit Create_db) (\<lambda>_.
     ret e1)))"

section \<open>The helpers of \<^verbatim>\<open>BasicTextTemplate\<close>\<close>

definition process_tabular_insert :: "script \<Rightarrow> engine \<Rightarrow> table_obj \<Rightarrow> string \<Rightarrow> unit run" where
  "process_tabular_insert self eng t u =
     (if s_archived self \<noteq> None \<or> path t \<noteq> None then
        then_do (getattr ''path'' (path t)) (\<lambda>p.
        emit (Insert_data_from_file (format_filename eng p)))
      else emit (Insert_data_from_url u))"

definition process_spatial_insert :: "engine \<Rightarrow> table_obj \<Rightarrow> unit run" where
  "process_spatial_insert eng t =
     then_do (getattr ''dataset_type'' (dataset_type t)) (\<lambda>d.
     if d = ''RasterDataset'' then
       then_do (getattr ''path'' (path t)) (\<lambda>p. emit (Insert_raster (format_filename eng p)))
     else if d = ''VectorDataset'' then
       then_do (getattr ''path'' (path t)) (\<lambda>p. emit (Insert_vector (format_filename eng p)))
     else ret ())"

text \<open>
  \<^verbatim>\<open>process_tables\<close>: three consecutive \<^verbatim>\<open>if\<close> statements, the first two without
  \<^verbatim>\<open>else\<close>. In each conversion block both file names are formatted (the second reads
  \<^verbatim>\<open>table_obj.path\<close>) before the first engine call of the block.
\<close>

definition process_tables :: "script \<Rightarrow> engine \<Rightarrow> table_obj \<Rightarrow> string \<Rightarrow> unit run" where
  "process_tables self eng t u =
     then_do
       (case xls_sheets t of
          None \<Rightarrow> ret ()
        | Some sheets \<Rightarrow>
            then_do (ret (format_filename eng (snd sheets))) (\<lambda>src_path.
            then_do (getattr ''path'' (path t)) (\<lambda>p.
            then_do (ret (format_filename eng p)) (\<lambda>path_to_csv.
            then_do (emit (Download_file u (snd sheets))) (\<lambda>_.
            emit (Excel_to_csv src_path path_to_csv sheets (encoding self)))))))
     (\<lambda>_. then_do
       (case geojson_data t of
          None \<Rightarrow> ret ()
        | Some g \<Rightarrow>
            then_do (ret (format_filename eng g)) (\<lambda>src_path.
            then_do (getattr ''path'' (path t)) (\<lambda>p.
            then_do (ret (format_filename eng p)) (\<lambda>path_to_csv.
            then_do (emit (Download_file u g)) (\<lambda>_.
            emit (Process_geojson2csv src_path path_to_csv))))))
     (\<lambda>_.
       (case path t of
          Some p \<Rightarrow> emit (Auto_create_table t u (Some p))
        | None \<Rightarrow> emit (Auto_create_table t u None))))"

text \<open>
  \<^verbatim>\<open>process_archived_data\<close>. When the script has the attribute \<^verbatim>\<open>extract_all\<close> the
  file list stays \<^verbatim>\<open>None\<close> whatever its value (the inner \<^verbatim>\<open>if\<close> assigns \<^verbatim>\<open>None\<close> and
  has no \<^verbatim>\<open>else\<close>); otherwise \<^verbatim>\<open>table_obj.path\<close> is read.
\<close>

definition process_archived_data :: "script \<Rightarrow> engine \<Rightarrow> table_obj \<Rightarrow> string \<Rightarrow> unit run" where
  "process_archived_data self eng t u =
     (let archive_type0 = ''zip'';
          keep_in_dir0 = False;
          archive_name0 = None;
          files0 = None;
          archive_type =
            (case archived t of
               Some a \<Rightarrow> a
             | None \<Rightarrow> (case s_archived self of Some a \<Rightarrow> a | None \<Rightarrow> archive_type0))
      in
      then_do
        (case extract_all self of
           Some b \<Rightarrow> ret (if b then None else files0)
         | None \<Rightarrow> then_do (getattr ''path'' (path t)) (\<lambda>p. ret (Some [p])))
      (\<lambda>files1.
        let files = (case xls_sheets t of Some sheets \<Rightarrow> Some [snd sheets] | None \<Rightarrow> files1);
            kd = (case keep_in_dir self of Some b \<Rightarrow> b | None \<Rightarrow> keep_in_dir0);
            an = (case archive_name self of Some n \<Rightarrow> Some n | None \<Rightarrow> archive_name0)
        in emit (Download_files_from_archive u files archive_type kd an)))"

section \<open>\<^verbatim>\<open>BasicTextTemplate.download\<close>\<close>

text \<open>
  Lines 120 to 124: the assignment of the local \<^verbatim>\<open>url\<close>. There is no \<^verbatim>\<open>else\<close>: when the
  table's \<^verbatim>\<open>url\<close> is absent or false and \<^verbatim>\<open>self.url\<close> is false, the variable keeps what
  it held before this iteration. \<^verbatim>\<open>self.url\<close> is read only in the \<^verbatim>\<open>elif\<close>.
\<close>

definition truthy :: "string option \<Rightarrow> bool" where
  "truthy v = (case v of None \<Rightarrow> False | Some s \<Rightarrow> s \<noteq> [])"

definition resolve_url :: "script \<Rightarrow> table_obj \<Rightarrow> string option \<Rightarrow> string option run" where
  "resolve_url self t url_var =
     (if truthy (url t) then ret (url t)
      else then_do (getattr ''url'' (s_url self)) (\<lambda>su.
           if su \<noteq> [] then ret (Some su) else ret url_var))"

text \<open>Lines 126 to 128.\<close>

definition extract_stage :: "script \<Rightarrow> engine \<Rightarrow> table_obj \<Rightarrow> string option \<Rightarrow> unit run" where
  "extract_stage self eng t url_var =
     (if s_archived self \<noteq> None \<or> archived t \<noteq> None then
        then_do (read_local ''url'' url_var) (\<lambda>u. process_archived_data self eng t u)
      else ret ())"

text \<open>The text printed at line 137.\<close>

definition no_spatial_message :: "engine \<Rightarrow> string" where
  "no_spatial_message eng = ''Engine '' @ e_name eng @ '' does not support spatial processing''"

text \<open>Lines 130 to 139. The \<^verbatim>\<open>return\<close> leaves \<^verbatim>\<open>download\<close>, not only the iteration.\<close>

definition create_stage :: "script \<Rightarrow> engine \<Rightarrow> table_obj \<Rightarrow> string option \<Rightarrow> unit run" where
  "create_stage self eng t url_var =
     (if format t = Some ''tabular'' then
        then_do (read_local ''url'' url_var) (\<lambda>u. process_tables self eng t u)
      else
        (case spatial_support eng of
           None \<Rightarrow> ret ()
         | Some supported \<Rightarrow>
             if supported then
               then_do (read_local ''url'' url_var) (\<lambda>u. process_tables self eng t u)
             else
               then_do (emit (Print (no_spatial_message eng))) (\<lambda>_. leave Return_fn)))"

text \<open>
  Lines 141 to 149. The call of \<^verbatim>\<open>process_tabular_insert\<close> is inside the
  \<^verbatim>\<open>if hasattr(table_obj, "dataset_type")\<close> block; the \<^verbatim>\<open>continue\<close> goes to the next
  table without reaching \<^verbatim>\<open>disconnect_files\<close>.
\<close>

definition insert_stage :: "script \<Rightarrow> engine \<Rightarrow> table_obj \<Rightarrow> string option \<Rightarrow> unit run" where
  "insert_stage self eng t url_var =
     then_do
       (case dataset_type t of
          None \<Rightarrow> ret ()
        | Some d \<Rightarrow>
            if d \<in> set [''RasterDataset'', ''VectorDataset''] then
              then_do (process_spatial_insert eng t) (\<lambda>_. leave Continue_loop)
            else
              then_do (read_local ''url'' url_var) (\<lambda>u. process_tabular_insert self eng t u))
     (\<lambda>_. emit Disconnect_files)"

text \<open>The loop body after the assignment of \<^verbatim>\<open>url\<close>: lines 126 to 149.\<close>

definition table_stages :: "script \<Rightarrow> engine \<Rightarrow> table_obj \<Rightarrow> string option \<Rightarrow> unit run" where
  "table_stages self eng t url_var =
     then_do (extract_stage self eng t url_var) (\<lambda>_.
     then_do (create_stage self eng t url_var) (\<lambda>_.
     insert_stage self eng t url_var))"

text \<open>
  How a call of \<^verbatim>\<open>download\<close> ends: the loop ran out of tables, the \<^verbatim>\<open>return\<close> of
  line 139 was taken, or an exception left the function.
\<close>

datatype outcome = Finished | Returned | Failed error

definition prepend :: "event list \<Rightarrow> event list \<times> outcome \<Rightarrow> event list \<times> outcome" where
  "prepend evs r = (evs @ fst r, snd r)"

text \<open>
  The \<^verbatim>\<open>for\<close> loop over \<^verbatim>\<open>self.tables.items()\<close>, with the local \<^verbatim>\<open>url\<close> carried from one
  iteration to the next.
\<close>

fun download_loop ::
  "script \<Rightarrow> engine \<Rightarrow> string option \<Rightarrow> (string \<times> table_obj) list \<Rightarrow> event list \<times> outcome"
where
  "download_loop self eng url_var [] = ([], Finished)"
| "download_loop self eng url_var (kt # rest) =
     (case resolve_url self (snd kt) url_var of
        (evs0, Inl (Raise err)) \<Rightarrow> (evs0, Failed err)
      | (evs0, Inl Return_fn) \<Rightarrow> (evs0, Returned)
      | (evs0, Inl Continue_loop) \<Rightarrow> prepend evs0 (download_loop self eng url_var rest)
      | (evs0, Inr url_var') \<Rightarrow>
          (case table_stages self eng (snd kt) url_var' of
             (evs, Inl (Raise err)) \<Rightarrow> (evs0 @ evs, Failed err)
           | (evs, Inl Return_fn) \<Rightarrow> (evs0 @ evs, Returned)
           | (evs, Inl Continue_loop) \<Rightarrow>
               prepend (evs0 @ evs) (download_loop self eng url_var' rest)
           | (evs, Inr _) \<Rightarrow>
               prepend (evs0 @ evs) (download_loop self eng url_var' rest)))"

text \<open>
  \<^verbatim>\<open>download\<close> returns the engine as \<^verbatim>\<open>Script.download\<close> left it, the events of the whole
  call and the way the call ended. \<^verbatim>\<open>Script.download\<close> raises nothing in this model.
\<close>

definition download ::
  "engine \<Rightarrow> script \<Rightarrow> engine option \<Rightarrow> bool \<Rightarrow> engine \<times> event list \<times> outcome"
where
  "download chosen self eng dbg =
     (case Script_download chosen self eng dbg of
        (evs, Inr e) \<Rightarrow> (e, prepend evs (download_loop self e None (tables self)))
      | (evs, Inl x) \<Rightarrow>
          (case eng of None \<Rightarrow> chosen | Some e' \<Rightarrow> e',
           evs, (case x of Raise err \<Rightarrow> Failed err | _ \<Rightarrow> Returned)))"

section \<open>Classifying the engine calls\<close>

text \<open>
  The stage an engine call belongs to. \<^verbatim>\<open>download_file\<close> is only ever called as the
  first half of a format conversion.
\<close>

datatype kind =
  Setup | Extract | Convert | Create | Tabular_insert | Spatial_insert | Cleanup | Diagnostic

fun kind_of :: "event \<Rightarrow> kind" where
  "kind_of Get_input = Setup"
| "kind_of Set_engine_encoding = Setup"
| "kind_of Create_db = Setup"
| "kind_of (Download_files_from_archive _ _ _ _ _) = Extract"
| "kind_of (Download_file _ _) = Convert"
| "kind_of (Excel_to_csv _ _ _ _) = Convert"
| "kind_of (Process_geojson2csv _ _) = Convert"
| "kind_of (Auto_create_table _ _ _) = Create"
| "kind_of (Insert_data_from_file _) = Tabular_insert"
| "kind_of (Insert_data_from_url _) = Tabular_insert"
| "kind_of (Insert_raster _) = Spatial_insert"
| "kind_of (Insert_vector _) = Spatial_insert"
| "kind_of Disconnect_files = Cleanup"
| "kind_of (Print _) = Diagnostic"

definition is_insert :: "event \<Rightarrow> bool" where
  "is_insert ev = (kind_of ev = Tabular_insert \<or> kind_of ev = Spatial_insert)"

section \<open>Concrete descriptors\<close>

text \<open>
  Descriptors for the concrete runs below. \<open>bare_table\<close> has no optional attribute at
  all; \<open>engine_with\<close> builds an engine from its \<^verbatim>\<open>spatial_support\<close> attribute (absent,
  false or true).
\<close>

definition bare_table :: table_obj where
  "bare_table =
     \<lparr>url = None, archived = None, format = None, dataset_type = None, path = None,
      xls_sheets = None, geojson_data = None\<rparr>"

definition csv_table :: table_obj where
  "csv_table =
     bare_table\<lparr>format := Some ''tabular'', dataset_type := Some ''TabularDataset'',
                path := Some ''data.csv''\<rparr>"

definition untyped_table :: table_obj where
  "untyped_table = bare_table\<lparr>format := Some ''tabular'', path := Some ''data.csv''\<rparr>"

definition raster_table :: table_obj where
  "raster_table = bare_table\<lparr>dataset_type := Some ''RasterDataset'', path := Some ''r.tif''\<rparr>"

definition vector_table :: table_obj where
  "vector_table =
     bare_table\<lparr>dataset_type := Some ''VectorDataset'', path := Some ''shape.shp''\<rparr>"

definition workbook_geo_table :: table_obj where
  "workbook_geo_table =
     csv_table\<lparr>path := Some ''out.csv'', xls_sheets := Some (0, ''book.xlsx''),
               geojson_data := Some ''geo.json''\<rparr>"

definition own_url_table :: table_obj where
  "own_url_table =
     bare_table\<lparr>url := Some ''http://a/a.csv'', format := Some ''tabular'',
                dataset_type := Some ''TabularDataset''\<rparr>"

definition no_url_table :: table_obj where
  "no_url_table =
     bare_table\<lparr>format := Some ''tabular'', dataset_type := Some ''TabularDataset''\<rparr>"

definition zipped_table :: table_obj where
  "zipped_table = no_url_table\<lparr>archived := Some ''zip''\<rparr>"

definition tar_workbook_table :: table_obj where
  "tar_workbook_table =
     csv_table\<lparr>archived := Some ''tar'', path := Some ''out.csv'',
               xls_sheets := Some (0, ''book.xlsx'')\<rparr>"

definition zipped_workbook_table :: table_obj where
  "zipped_workbook_table = zipped_table\<lparr>xls_sheets := Some (0, ''book.xlsx'')\<rparr>"

definition other_url_table :: table_obj where
  "other_url_table = own_url_table\<lparr>url := Some ''http://c/c.csv''\<rparr>"

definition plain_script :: script where
  "plain_script =
     \<lparr>s_name = ''ds'', s_url = Some ''http://x/data.zip'', s_archived = None,
      extract_all = None, keep_in_dir = None, archive_name = None, encoding = ''utf-8'',
      tables = []\<rparr>"

definition engine_with :: "bool option \<Rightarrow> engine" where
  "engine_with supported =
     \<lparr>e_name = ''eng'', spatial_support = supported,
      format_filename = (\<lambda>p. ''raw_data/'' @ p), debug = False, db_name = [],
      bound_script = None\<rparr>"

section \<open>Sequencing\<close>

lemmas run_defs = ret_def leave_def emit_def then_do_def getattr_def read_local_def

lemma then_do_Inr: "m = (evs, Inr a) \<Longrightarrow> then_do m f = (evs @ fst (f a), snd (f a))"
  by (simp add: then_do_def split: prod.splits)

lemma then_do_Inl: "m = (evs, Inl x) \<Longrightarrow> then_do m f = (evs, Inl x)"
  by (simp add: then_do_def)

lemma then_do_events:
  "ev \<in> set (fst (then_do m f)) \<Longrightarrow>
     ev \<in> set (fst m) \<or> (\<exists>a. snd m = Inr a \<and> ev \<in> set (fst (f a)))"
  by (cases m) (auto simp: then_do_def split: sum.splits prod.splits)

lemma then_do_snd_Inr:
  "snd (then_do m f) = Inr b \<Longrightarrow>
     \<exists>a. snd m = Inr a \<and> snd (f a) = Inr b \<and> fst (then_do m f) = fst m @ fst (f a)"
  by (cases m) (auto simp: then_do_def split: sum.splits prod.splits)

lemma then_do_snd_Inl:
  "snd (then_do m f) = Inl x \<Longrightarrow>
     (snd m = Inl x \<and> fst (then_do m f) = fst m) \<or>
     (\<exists>a. snd m = Inr a \<and> snd (f a) = Inl x \<and> fst (then_do m f) = fst m @ fst (f a))"
  by (cases m) (auto simp: then_do_def split: sum.splits prod.splits)

section \<open>The stages in closed form\<close>

lemma process_archived_data_eq:
  "process_archived_data self eng t u =
     (if extract_all self = None \<and> path t = None then ([], Inl (Raise (AttributeError ''path'')))
      else ([Download_files_from_archive u
               (case xls_sheets t of
                  Some sheets \<Rightarrow> Some [snd sheets]
                | None \<Rightarrow> (case extract_all self of Some b \<Rightarrow> None | None \<Rightarrow> Some [the (path t)]))
               (case archived t of
                  Some a \<Rightarrow> a
                | None \<Rightarrow> (case s_archived self of Some a \<Rightarrow> a | None \<Rightarrow> ''zip''))
               (case keep_in_dir self of Some b \<Rightarrow> b | None \<Rightarrow> False)
               (archive_name self)], Inr ()))"
  by (auto simp: process_archived_data_def run_defs Let_def split: option.splits)

lemma extract_stage_eq:
  "extract_stage self eng t uv =
     (if s_archived self = None \<and> archived t = None then ([], Inr ())
      else case uv of
             None \<Rightarrow> ([], Inl (Raise (UnboundLocalError ''url'')))
           | Some u \<Rightarrow> process_archived_data self eng t u)"
  by (cases "process_archived_data self eng t (the uv)")
     (auto simp: extract_stage_def run_defs split: option.splits sum.splits)

lemma extract_stage_kind:
  "ev \<in> set (fst (extract_stage self eng t uv)) \<Longrightarrow> kind_of ev = Extract"
  by (auto simp: extract_stage_eq process_archived_data_eq split: option.splits if_splits)

lemma extract_stage_exit:
  "snd (extract_stage self eng t uv) = Inl x \<Longrightarrow> \<exists>err. x = Raise err"
  by (auto simp: extract_stage_eq process_archived_data_eq split: option.splits if_splits)

lemma process_tables_kind:
  "ev \<in> set (fst (process_tables self eng t u)) \<Longrightarrow> kind_of ev = Convert \<or> kind_of ev = Create"
  by (auto simp: process_tables_def run_defs split: option.splits if_splits)

lemma process_tables_exit:
  "snd (process_tables self eng t u) = Inl x \<Longrightarrow> \<exists>err. x = Raise err"
  by (auto simp: process_tables_def run_defs split: option.splits if_splits)

lemma create_stage_eq:
  "create_stage self eng t uv =
     (if format t = Some ''tabular'' \<or> spatial_support eng = Some True then
        (case uv of
           None \<Rightarrow> ([], Inl (Raise (UnboundLocalError ''url'')))
         | Some u \<Rightarrow> process_tables self eng t u)
      else if spatial_support eng = None then ([], Inr ())
      else ([Print (no_spatial_message eng)], Inl Return_fn))"
  by (cases "process_tables self eng t (the uv)")
     (auto simp: create_stage_def run_defs split: option.splits sum.splits)

lemma create_stage_kind:
  "ev \<in> set (fst (create_stage self eng t uv)) \<Longrightarrow>
     kind_of ev = Convert \<or> kind_of ev = Create \<or> kind_of ev = Diagnostic"
  by (auto simp: create_stage_eq split: option.splits if_splits dest: process_tables_kind)

lemma create_stage_exit:
  "snd (create_stage self eng t uv) = Inl x \<Longrightarrow> x \<noteq> Continue_loop"
  by (auto simp: create_stage_eq split: option.splits if_splits dest: process_tables_exit)

lemma insert_stage_eq:
  "insert_stage self eng t uv =
     (case dataset_type t of
        None \<Rightarrow> ([Disconnect_files], Inr ())
      | Some d \<Rightarrow>
          if d = ''RasterDataset'' \<or> d = ''VectorDataset'' then
            (case path t of
               None \<Rightarrow> ([], Inl (Raise (AttributeError ''path'')))
             | Some p \<Rightarrow>
                 ([if d = ''RasterDataset'' then Insert_raster (format_filename eng p)
                   else Insert_vector (format_filename eng p)], Inl Continue_loop))
          else
            (case uv of
               None \<Rightarrow> ([], Inl (Raise (UnboundLocalError ''url'')))
             | Some u \<Rightarrow>
                 if s_archived self \<noteq> None \<or> path t \<noteq> None then
                   (case path t of
                      None \<Rightarrow> ([], Inl (Raise (AttributeError ''path'')))
                    | Some p \<Rightarrow>
                        ([Insert_data_from_file (format_filename eng p), Disconnect_files],
                         Inr ()))
                 else ([Insert_data_from_url u, Disconnect_files], Inr ())))"
  by (auto simp: insert_stage_def process_spatial_insert_def process_tabular_insert_def run_defs
           split: option.splits)

section \<open>One pass over a table\<close>

lemma table_stages_events:
  "ev \<in> set (fst (table_stages self eng t uv)) \<Longrightarrow>
     ev \<in> set (fst (extract_stage self eng t uv)) \<or>
     ev \<in> set (fst (create_stage self eng t uv)) \<or>
     ev \<in> set (fst (insert_stage self eng t uv))"
  unfolding table_stages_def by (blast dest: then_do_events)

lemma table_stages_straight:
  "extract_stage self eng t uv = (evs1, Inr ()) \<Longrightarrow>
   create_stage self eng t uv = (evs2, Inr ()) \<Longrightarrow>
   table_stages self eng t uv =
     (evs1 @ evs2 @ fst (insert_stage self eng t uv), snd (insert_stage self eng t uv))"
  by (simp add: table_stages_def then_do_Inr)

lemma table_stages_Inr:
  "snd (table_stages self eng t uv) = Inr () \<Longrightarrow>
     snd (extract_stage self eng t uv) = Inr () \<and>
     snd (create_stage self eng t uv) = Inr () \<and>
     snd (insert_stage self eng t uv) = Inr () \<and>
     fst (table_stages self eng t uv) =
       fst (extract_stage self eng t uv) @ fst (create_stage self eng t uv) @
       fst (insert_stage self eng t uv)"
  unfolding table_stages_def
  by (auto dest!: then_do_snd_Inr)

lemma table_stages_Continue:
  "snd (table_stages self eng t uv) = Inl Continue_loop \<Longrightarrow>
     snd (extract_stage self eng t uv) = Inr () \<and>
     snd (create_stage self eng t uv) = Inr () \<and>
     snd (insert_stage self eng t uv) = Inl Continue_loop \<and>
     fst (table_stages self eng t uv) =
       fst (extract_stage self eng t uv) @ fst (create_stage self eng t uv) @
       fst (insert_stage self eng t uv)"
  unfolding table_stages_def
  by (auto dest!: then_do_snd_Inl extract_stage_exit create_stage_exit)

lemma resolve_url_eq:
  "resolve_url self t uv =
     (if truthy (url t) then ([], Inr (url t))
      else case s_url self of
             None \<Rightarrow> ([], Inl (Raise (AttributeError ''url'')))
           | Some su \<Rightarrow> ([], Inr (if su \<noteq> [] then Some su else uv)))"
  by (auto simp: resolve_url_def run_defs split: option.splits)

lemmas fixture_defs = bare_table_def csv_table_def untyped_table_def raster_table_def
  vector_table_def workbook_geo_table_def own_url_table_def no_url_table_def zipped_table_def
  tar_workbook_table_def zipped_workbook_table_def other_url_table_def
  plain_script_def engine_with_def

lemmas eval_defs = download_def Script_download_def checkengine_def prepend_def
  table_stages_def resolve_url_eq extract_stage_eq create_stage_eq insert_stage_eq
  process_archived_data_eq process_tables_def truthy_def no_spatial_message_def
  run_defs fixture_defs

lemma insert_stage_kind:
  "ev \<in> set (fst (insert_stage self eng t uv)) \<Longrightarrow>
     kind_of ev = Tabular_insert \<or> kind_of ev = Spatial_insert \<or> kind_of ev = Cleanup"
  by (auto simp: insert_stage_eq split: option.splits if_splits)

lemma insert_stage_exit:
  "snd (insert_stage self eng t uv) = Inl x \<Longrightarrow> x \<noteq> Return_fn"
  by (auto simp: insert_stage_eq split: option.splits if_splits)

lemma before_insert_kind:
  "ev \<in> set (fst (extract_stage self eng t uv) @ fst (create_stage self eng t uv)) \<Longrightarrow>
     \<not> is_insert ev \<and> ev \<noteq> Disconnect_files"
  by (auto simp: is_insert_def dest: extract_stage_kind create_stage_kind)

lemma after_extract_kind:
  "ev \<in> set (fst (then_do (create_stage self eng t uv) (\<lambda>_. insert_stage self eng t uv))) \<Longrightarrow>
     kind_of ev \<noteq> Extract"
  by (auto dest!: then_do_events create_stage_kind insert_stage_kind)

lemma table_stages_mismatch:
  assumes "format t \<noteq> Some ''tabular''" and "spatial_support eng = Some False"
  shows "table_stages self eng t uv =
           (case extract_stage self eng t uv of
              (evs, Inl x) \<Rightarrow> (evs, Inl x)
            | (evs, Inr _) \<Rightarrow> (evs @ [Print (no_spatial_message eng)], Inl Return_fn))"
proof -
  have "create_stage self eng t uv = ([Print (no_spatial_message eng)], Inl Return_fn)"
    using assms by (simp add: create_stage_eq)
  then show ?thesis
    by (simp add: table_stages_def then_do_def split: prod.splits sum.splits)
qed

section \<open>What the decisions depend on\<close>

lemma table_stages_engine:
  assumes "e_name e = e_name e'" and "spatial_support e = spatial_support e'"
    and "format_filename e = format_filename e'"
  shows "table_stages self e t uv = table_stages self e' t uv"
proof -
  have "process_tables self e t u = process_tables self e' t u" for u
    using assms(3) by (simp add: process_tables_def split: option.splits)
  then have "create_stage self e t uv = create_stage self e' t uv"
    using assms(1,2) by (simp add: create_stage_eq no_spatial_message_def split: option.splits)
  moreover have "extract_stage self e t uv = extract_stage self e' t uv"
    by (simp add: extract_stage_eq process_archived_data_eq split: option.splits)
  moreover have "insert_stage self e t uv = insert_stage self e' t uv"
    using assms(3) by (simp add: insert_stage_eq split: option.splits)
  ultimately show ?thesis
    by (simp add: table_stages_def)
qed

lemma download_loop_engine:
  assumes "e_name e = e_name e'" and "spatial_support e = spatial_support e'"
    and "format_filename e = format_filename e'"
  shows "download_loop self e uv ts = download_loop self e' uv ts"
proof (induction ts arbitrary: uv)
  case Nil
  show ?case by simp
next
  case (Cons kt ts)
  show ?case
    by (simp add: table_stages_engine [OF assms] Cons.IH
             split: prod.splits sum.splits exit.splits)
qed

lemma Script_download_eq:
  "Script_download chosen self eng dbg =
     ([Get_input, Set_engine_encoding, Create_db],
      Inr ((case eng of None \<Rightarrow> chosen | Some e \<Rightarrow> e)
             \<lparr>bound_script := Some (s_name self), debug := dbg, db_name := s_name self\<rparr>))"
  by (simp add: Script_download_def checkengine_def run_defs Let_def)

lemma download_engine_frame:
  "(e_name e = e_name e' \<and> spatial_support e = spatial_support e' \<and>
    format_filename e = format_filename e' \<longrightarrow>
      snd (download chosen self (Some e) dbg) = snd (download chosen' self (Some e') dbg')) \<and>
   download chosen self (Some (fst (download chosen self eng dbg))) dbg =
     download chosen self eng dbg"
proof (intro conjI impI)
  assume "e_name e = e_name e' \<and> spatial_support e = spatial_support e' \<and>
          format_filename e = format_filename e'"
  then have "download_loop self
               (e\<lparr>bound_script := Some (s_name self), debug := dbg, db_name := s_name self\<rparr>)
               None (tables self) =
             download_loop self
               (e'\<lparr>bound_script := Some (s_name self), debug := dbg', db_name := s_name self\<rparr>)
               None (tables self)"
    by (intro download_loop_engine) simp_all
  then show "snd (download chosen self (Some e) dbg) = snd (download chosen' self (Some e') dbg')"
    by (simp add: download_def Script_download_eq)
next
  show "download chosen self (Some (fst (download chosen self eng dbg))) dbg =
          download chosen self eng dbg"
    by (simp add: download_def Script_download_eq)
qed

lemma resolve_url_own:
  "truthy (url t) \<Longrightarrow> resolve_url self t uv = ([], Inr (url t))"
  by (simp add: resolve_url_eq)

lemma resolve_url_default:
  "\<not> truthy (url t) \<Longrightarrow> s_url self = Some su \<Longrightarrow> su \<noteq> [] \<Longrightarrow>
     resolve_url self t uv = ([], Inr (Some su))"
  by (simp add: resolve_url_eq)

lemma resolve_url_no_attribute:
  "\<not> truthy (url t) \<Longrightarrow> s_url self = None \<Longrightarrow>
     download_loop self eng uv ((k, t) # rest) = ([], Failed (AttributeError ''url''))"
  by (simp add: resolve_url_eq)

lemma resolve_url_history_independent:
  "truthy (url t) \<or> truthy (s_url self) \<Longrightarrow> resolve_url self t uv = resolve_url self t uv'"
  by (auto simp: resolve_url_eq truthy_def split: option.splits)

lemma table_pass_history_independent:
  assumes "truthy (url t) \<or> truthy (s_url self)"
  shows "download_loop self eng uv ((k, t) # rest) = download_loop self eng uv' ((k, t) # rest)"
proof -
  let ?w = "if truthy (url t) then url t else s_url self"
  have "resolve_url self t uv = ([], Inr ?w)" and "resolve_url self t uv' = ([], Inr ?w)"
    using assms by (auto simp: resolve_url_eq truthy_def split: option.splits)
  then show ?thesis by simp
qed

section \<open>Capability mismatch (claim C1)\<close>

text \<open>
  Claim C1, as the code has it. When a table's \<^verbatim>\<open>format\<close> is not \<^verbatim>\<open>"tabular"\<close> and the
  engine reports \<^verbatim>\<open>spatial_support == False\<close>, and the pass over that table reaches the
  table-creation stage (the URL assignment and the archive stage raise nothing), the pass
  stops with the diagnostic, no insertion call is made for the table, and \<^verbatim>\<open>download\<close>
  returns: the result is the same whatever tables \<open>rest\<close> follow, none of them is
  processed.
\<close>

theorem capability_mismatch_returns:
  assumes "format t \<noteq> Some ''tabular''"
    and "spatial_support eng = Some False"
    and "resolve_url self t uv = ([], Inr uv')"
    and "extract_stage self eng t uv' = (evs, Inr ())"
  shows "download_loop self eng uv ((k, t) # rest) =
           (evs @ [Print (no_spatial_message eng)], Returned) \<and>
         (\<forall>ev\<in>set (evs @ [Print (no_spatial_message eng)]). \<not> is_insert ev)"
proof -
  have c: "create_stage self eng t uv' = ([Print (no_spatial_message eng)], Inl Return_fn)"
    using assms(1,2) by (simp add: create_stage_eq)
  have ts: "table_stages self eng t uv' = (evs @ [Print (no_spatial_message eng)], Inl Return_fn)"
    by (simp add: table_stages_def then_do_Inr then_do_Inl assms(4) c)
  have "\<forall>ev\<in>set evs. kind_of ev = Extract"
    using extract_stage_kind [of _ self eng t uv'] assms(4) by simp
  then have "\<forall>ev\<in>set (evs @ [Print (no_spatial_message eng)]). \<not> is_insert ev"
    by (auto simp: is_insert_def)
  moreover have "download_loop self eng uv ((k, t) # rest) =
           (evs @ [Print (no_spatial_message eng)], Returned)"
    by (simp add: assms(3) ts)
  ultimately show ?thesis by simp
qed

theorem capability_mismatch_returns_witness:
  "download_loop plain_script (engine_with (Some False)) None
     [(''rast'', raster_table), (''tab'', csv_table)] =
     ([Print ''Engine eng does not support spatial processing''], Returned) \<and>
   \<not> is_insert (Print ''Engine eng does not support spatial processing'')"
proof -
  have f: "format raster_table \<noteq> Some ''tabular''"
    by (simp add: fixture_defs)
  have s: "spatial_support (engine_with (Some False)) = Some False"
    by (simp add: fixture_defs)
  have r: "resolve_url plain_script raster_table None = ([], Inr (Some ''http://x/data.zip''))"
    by (simp add: resolve_url_eq truthy_def fixture_defs)
  have e: "extract_stage plain_script (engine_with (Some False)) raster_table
             (Some ''http://x/data.zip'') = ([], Inr ())"
    by (simp add: extract_stage_eq fixture_defs)
  show ?thesis
    using capability_mismatch_returns [OF f s r e, of "''rast''" "[(''tab'', csv_table)]"]
    by (simp add: no_spatial_message_def engine_with_def)
qed

text \<open>
  The claim as stated promises that the sibling tables are still processed. A raster
  table followed by a tabular one: the run ends at the diagnostic, although the tabular
  table alone is created and filled by the same engine.
\<close>

theorem sibling_after_mismatch_counterexample:
  "snd (download (engine_with (Some False))
          (plain_script\<lparr>tables := [(''rast'', raster_table), (''tab'', csv_table)]\<rparr>)
          None False) =
     ([Get_input, Set_engine_encoding, Create_db,
       Print ''Engine eng does not support spatial processing''], Returned) \<and>
   snd (download (engine_with (Some False))
          (plain_script\<lparr>tables := [(''tab'', csv_table)]\<rparr>) None False) =
     ([Get_input, Set_engine_encoding, Create_db,
       Auto_create_table csv_table ''http://x/data.zip'' (Some ''data.csv''),
       Insert_data_from_file ''raw_data/data.csv'', Disconnect_files], Finished)"
  by (simp add: eval_defs)

section \<open>Absent \<^verbatim>\<open>dataset_type\<close> (claim C2)\<close>

text \<open>
  Claim C2, as the code has it. The tabular insertion is inside the
  \<^verbatim>\<open>hasattr(table_obj, "dataset_type")\<close> block: a table without \<^verbatim>\<open>dataset_type\<close> gets
  no insertion call of any kind in its pass, and a table whose \<^verbatim>\<open>dataset_type\<close> is
  present and neither \<^verbatim>\<open>"RasterDataset"\<close> nor \<^verbatim>\<open>"VectorDataset"\<close> gets, when its pass
  runs to the end, exactly the tabular insertion followed by \<^verbatim>\<open>disconnect_files\<close>.
\<close>

theorem dataset_type_gates_tabular_insert:
  "(dataset_type t = None \<longrightarrow>
      (\<forall>ev\<in>set (fst (table_stages self eng t uv)). \<not> is_insert ev)) \<and>
   (\<forall>d. dataset_type t = Some d \<and> d \<noteq> ''RasterDataset'' \<and> d \<noteq> ''VectorDataset'' \<and>
        snd (table_stages self eng t uv) = Inr () \<longrightarrow>
      (\<exists>pre ins. fst (table_stages self eng t uv) = pre @ [ins, Disconnect_files] \<and>
         kind_of ins = Tabular_insert \<and> (\<forall>ev\<in>set pre. \<not> is_insert ev)))"
proof (intro conjI impI allI)
  assume none: "dataset_type t = None"
  show "\<forall>ev\<in>set (fst (table_stages self eng t uv)). \<not> is_insert ev"
  proof
    fix ev
    assume "ev \<in> set (fst (table_stages self eng t uv))"
    then consider "ev \<in> set (fst (extract_stage self eng t uv) @ fst (create_stage self eng t uv))"
      | "ev \<in> set (fst (insert_stage self eng t uv))"
      using table_stages_events by fastforce
    then show "\<not> is_insert ev"
    proof cases
      case 1
      then show ?thesis using before_insert_kind by blast
    next
      case 2
      then show ?thesis using none by (simp add: insert_stage_eq is_insert_def)
    qed
  qed
next
  fix d
  assume h: "dataset_type t = Some d \<and> d \<noteq> ''RasterDataset'' \<and> d \<noteq> ''VectorDataset'' \<and>
             snd (table_stages self eng t uv) = Inr ()"
  let ?pre = "fst (extract_stage self eng t uv) @ fst (create_stage self eng t uv)"
  from h have ok: "snd (insert_stage self eng t uv) = Inr ()"
    and app: "fst (table_stages self eng t uv) = ?pre @ fst (insert_stage self eng t uv)"
    using table_stages_Inr [of self eng t uv] by simp_all
  from h ok obtain ins where ins: "fst (insert_stage self eng t uv) = [ins, Disconnect_files]"
    and k: "kind_of ins = Tabular_insert"
    by (auto simp: insert_stage_eq split: option.splits if_splits)
  have "\<forall>ev\<in>set ?pre. \<not> is_insert ev"
    using before_insert_kind by blast
  with app ins k
  show "\<exists>pre ins. fst (table_stages self eng t uv) = pre @ [ins, Disconnect_files] \<and>
         kind_of ins = Tabular_insert \<and> (\<forall>ev\<in>set pre. \<not> is_insert ev)"
    by (intro exI [of _ ?pre] exI [of _ ins]) simp
qed

theorem dataset_type_gates_tabular_insert_witness:
  "dataset_type untyped_table = None \<and>
   \<not> list_ex is_insert
       (fst (table_stages plain_script (engine_with None) untyped_table (Some ''http://x/d''))) \<and>
   dataset_type csv_table = Some ''TabularDataset'' \<and>
   table_stages plain_script (engine_with None) csv_table (Some ''http://x/d'') =
     ([Auto_create_table csv_table ''http://x/d'' (Some ''data.csv'')] @
      [Insert_data_from_file ''raw_data/data.csv'', Disconnect_files], Inr ())"
  using dataset_type_gates_tabular_insert
          [of untyped_table plain_script "engine_with None" "Some ''http://x/d''"]
        dataset_type_gates_tabular_insert
          [of csv_table plain_script "engine_with None" "Some ''http://x/d''"]
  by (simp add: eval_defs is_insert_def)

text \<open>
  The claim as stated: a table without \<^verbatim>\<open>dataset_type\<close> is inserted as tabular data.
  Here the table is created and the file handles are released, with no insertion.
\<close>

theorem absent_dataset_type_counterexample:
  "dataset_type untyped_table = None \<and>
   snd (download (engine_with None) (plain_script\<lparr>tables := [(''t'', untyped_table)]\<rparr>)
          None False) =
     ([Get_input, Set_engine_encoding, Create_db,
       Auto_create_table untyped_table ''http://x/data.zip'' (Some ''data.csv''),
       Disconnect_files], Finished)"
  by (simp add: eval_defs)

section \<open>Spreadsheet and geojson markers together (claim C3)\<close>

text \<open>
  Claim C3, as the code has it. The two conversion blocks of \<^verbatim>\<open>process_tables\<close> are
  consecutive \<^verbatim>\<open>if\<close> statements. For a table with \<^verbatim>\<open>xls_sheets\<close>, \<^verbatim>\<open>geojson_data\<close> and
  \<^verbatim>\<open>path\<close>, whenever the table-creation stage runs (\<^verbatim>\<open>format\<close> is \<^verbatim>\<open>"tabular"\<close> or the
  engine reports spatial support) both conversions are invoked in the same pass: the
  spreadsheet conversion first, then the geojson conversion, then the table creation.
\<close>

theorem both_conversions_run:
  assumes "xls_sheets t = Some sheets" and "geojson_data t = Some g" and "path t = Some p"
    and "format t = Some ''tabular'' \<or> spatial_support eng = Some True"
  shows "create_stage self eng t (Some u) =
           ([Download_file u (snd sheets),
             Excel_to_csv (format_filename eng (snd sheets)) (format_filename eng p) sheets
               (encoding self),
             Download_file u g,
             Process_geojson2csv (format_filename eng g) (format_filename eng p),
             Auto_create_table t u (Some p)], Inr ())"
  using assms by (auto simp: create_stage_eq process_tables_def run_defs)

theorem both_conversions_run_witness:
  "create_stage plain_script (engine_with None) workbook_geo_table (Some ''http://x/d'') =
     ([Download_file ''http://x/d'' ''book.xlsx'',
       Excel_to_csv ''raw_data/book.xlsx'' ''raw_data/out.csv'' (0, ''book.xlsx'') ''utf-8'',
       Download_file ''http://x/d'' ''geo.json'',
       Process_geojson2csv ''raw_data/geo.json'' ''raw_data/out.csv'',
       Auto_create_table workbook_geo_table ''http://x/d'' (Some ''out.csv'')], Inr ())"
proof -
  have a: "xls_sheets workbook_geo_table = Some (0, ''book.xlsx'')"
    and b: "geojson_data workbook_geo_table = Some ''geo.json''"
    and c: "path workbook_geo_table = Some ''out.csv''"
    and d: "format workbook_geo_table = Some ''tabular'' \<or>
            spatial_support (engine_with None) = Some True"
    by (simp_all add: fixture_defs)
  show ?thesis
    using both_conversions_run [OF a b c d, of plain_script "''http://x/d''"]
    by (simp add: fixture_defs)
qed

text \<open>
  The claim as stated: the geojson conversion is not invoked after the spreadsheet
  conversion. In this run it is.
\<close>

theorem geojson_after_spreadsheet_counterexample:
  "xls_sheets workbook_geo_table = Some (0, ''book.xlsx'') \<and>
   geojson_data workbook_geo_table = Some ''geo.json'' \<and>
   snd (download (engine_with None) (plain_script\<lparr>tables := [(''t'', workbook_geo_table)]\<rparr>)
          None False) =
     ([Get_input, Set_engine_encoding, Create_db,
       Download_file ''http://x/data.zip'' ''book.xlsx'',
       Excel_to_csv ''raw_data/book.xlsx'' ''raw_data/out.csv'' (0, ''book.xlsx'') ''utf-8'',
       Download_file ''http://x/data.zip'' ''geo.json'',
       Process_geojson2csv ''raw_data/geo.json'' ''raw_data/out.csv'',
       Auto_create_table workbook_geo_table ''http://x/data.zip'' (Some ''out.csv''),
       Insert_data_from_file ''raw_data/out.csv'', Disconnect_files], Finished)"
  by (simp add: eval_defs)

section \<open>Source URL (claim C4)\<close>

text \<open>
  Claim C4: the effective source URL is the table's own non-empty \<^verbatim>\<open>url\<close>, else the
  dataset's URL, and a table with neither fails before any engine call for it. The first
  two parts are \<open>resolve_url_own\<close> and \<open>resolve_url_default\<close>, and a dataset with no
  \<^verbatim>\<open>url\<close> attribute at all fails as claimed (\<open>resolve_url_no_attribute\<close>). The
  assignment has no \<^verbatim>\<open>else\<close>, though: with a dataset \<^verbatim>\<open>url\<close> that is present and empty,
  a table without \<^verbatim>\<open>url\<close> keeps the URL of the table before it. In the run below table
  \<^verbatim>\<open>b\<close> has no resolvable URL; nothing is raised, and it is created and filled from the
  URL of table \<^verbatim>\<open>a\<close>.
\<close>

theorem stale_url_reused:
  "snd (download (engine_with None)
          (plain_script\<lparr>s_url := Some [],
             tables := [(''a'', own_url_table), (''b'', no_url_table)]\<rparr>) None False) =
     ([Get_input, Set_engine_encoding, Create_db,
       Auto_create_table own_url_table ''http://a/a.csv'' None,
       Insert_data_from_url ''http://a/a.csv'', Disconnect_files,
       Auto_create_table no_url_table ''http://a/a.csv'' None,
       Insert_data_from_url ''http://a/a.csv'', Disconnect_files], Finished)"
  by (simp add: eval_defs)

section \<open>File-handle cleanup (claim C5)\<close>

text \<open>
  Claim C5, as the code has it. A pass that runs to the end of the loop body ends with
  \<^verbatim>\<open>disconnect_files\<close>, called once and after every other call of the pass, and such a
  table is neither a raster nor a vector table. For a table whose \<^verbatim>\<open>dataset_type\<close> is
  \<^verbatim>\<open>"RasterDataset"\<close> or \<^verbatim>\<open>"VectorDataset"\<close> the pass never calls \<^verbatim>\<open>disconnect_files\<close>:
  the \<^verbatim>\<open>continue\<close> of line 145 leaves the iteration right after the spatial insertion.
\<close>

theorem cleanup_unless_spatial:
  "(snd (table_stages self eng t uv) = Inr () \<longrightarrow>
      (\<exists>pre. fst (table_stages self eng t uv) = pre @ [Disconnect_files] \<and>
             Disconnect_files \<notin> set pre) \<and>
      dataset_type t \<noteq> Some ''RasterDataset'' \<and> dataset_type t \<noteq> Some ''VectorDataset'') \<and>
   (dataset_type t = Some ''RasterDataset'' \<or> dataset_type t = Some ''VectorDataset'' \<longrightarrow>
      Disconnect_files \<notin> set (fst (table_stages self eng t uv)) \<and>
      snd (table_stages self eng t uv) \<noteq> Inr ())"
proof (intro conjI impI)
  assume ok: "snd (table_stages self eng t uv) = Inr ()"
  let ?pre = "fst (extract_stage self eng t uv) @ fst (create_stage self eng t uv)"
  from ok have i: "snd (insert_stage self eng t uv) = Inr ()"
    and app: "fst (table_stages self eng t uv) = ?pre @ fst (insert_stage self eng t uv)"
    using table_stages_Inr [of self eng t uv] by simp_all
  from i show "dataset_type t \<noteq> Some ''RasterDataset''"
    and "dataset_type t \<noteq> Some ''VectorDataset''"
    by (auto simp: insert_stage_eq split: option.splits if_splits)
  from i obtain ins where ins: "fst (insert_stage self eng t uv) = ins @ [Disconnect_files]"
    and k: "\<forall>ev\<in>set ins. kind_of ev = Tabular_insert"
    by (auto simp: insert_stage_eq split: option.splits if_splits)
  have "Disconnect_files \<notin> set (?pre @ ins)"
    using before_insert_kind [of Disconnect_files self eng t uv] k by auto
  with app ins
  show "\<exists>pre. fst (table_stages self eng t uv) = pre @ [Disconnect_files] \<and>
             Disconnect_files \<notin> set pre"
    by (intro exI [of _ "?pre @ ins"]) simp
next
  assume sp: "dataset_type t = Some ''RasterDataset'' \<or> dataset_type t = Some ''VectorDataset''"
  then have i: "Disconnect_files \<notin> set (fst (insert_stage self eng t uv))"
    and r: "snd (insert_stage self eng t uv) \<noteq> Inr ()"
    by (auto simp: insert_stage_eq split: option.splits)
  show "Disconnect_files \<notin> set (fst (table_stages self eng t uv))"
    using i before_insert_kind [of Disconnect_files self eng t uv]
      table_stages_events [of Disconnect_files self eng t uv]
    by auto
  show "snd (table_stages self eng t uv) \<noteq> Inr ()"
    using r table_stages_Inr [of self eng t uv] by blast
qed

theorem cleanup_unless_spatial_witness:
  "table_stages plain_script (engine_with None) csv_table (Some ''http://x/d'') =
     ([Auto_create_table csv_table ''http://x/d'' (Some ''data.csv''),
       Insert_data_from_file ''raw_data/data.csv''] @ [Disconnect_files], Inr ()) \<and>
   dataset_type vector_table = Some ''VectorDataset'' \<and>
   Disconnect_files \<notin>
     set (fst (table_stages plain_script (engine_with (Some True)) vector_table
                 (Some ''http://x/d'')))"
  using cleanup_unless_spatial
          [of plain_script "engine_with None" csv_table "Some ''http://x/d''"]
        cleanup_unless_spatial
          [of plain_script "engine_with (Some True)" vector_table "Some ''http://x/d''"]
  by (simp add: eval_defs)

text \<open>
  The claim as stated includes the spatial insertions among the passes that are cleaned
  up. A vector table on an engine with spatial support: created, inserted, and the run
  finishes without \<^verbatim>\<open>disconnect_files\<close>.
\<close>

theorem spatial_table_cleanup_counterexample:
  "snd (download (engine_with (Some True)) (plain_script\<lparr>tables := [(''shape'', vector_table)]\<rparr>)
          None False) =
     ([Get_input, Set_engine_encoding, Create_db,
       Auto_create_table vector_table ''http://x/data.zip'' (Some ''shape.shp''),
       Insert_vector ''raw_data/shape.shp''], Finished)"
  by (simp add: eval_defs)

section \<open>Source of the tabular insertion (claim C6)\<close>

text \<open>
  Claim C6, as the code has it. Every tabular insertion call made in a table's pass is
  file-based, on the formatted \<^verbatim>\<open>path\<close> of the table, if the script has the attribute
  \<^verbatim>\<open>archived\<close> or the table has \<^verbatim>\<open>path\<close>, and URL-based, on the current value of
  \<^verbatim>\<open>url\<close>, otherwise. The table's own \<^verbatim>\<open>archived\<close> attribute is not consulted.
\<close>

theorem tabular_insert_source:
  "\<forall>ev\<in>set (fst (table_stages self eng t uv)). kind_of ev = Tabular_insert \<longrightarrow>
     (if s_archived self \<noteq> None \<or> path t \<noteq> None
      then \<exists>p. path t = Some p \<and> ev = Insert_data_from_file (format_filename eng p)
      else \<exists>u. uv = Some u \<and> ev = Insert_data_from_url u)"
proof (intro ballI impI)
  fix ev
  assume m: "ev \<in> set (fst (table_stages self eng t uv))" and k: "kind_of ev = Tabular_insert"
  have "ev \<notin> set (fst (extract_stage self eng t uv) @ fst (create_stage self eng t uv))"
    using before_insert_kind [of ev self eng t uv] k by (auto simp: is_insert_def)
  with m have "ev \<in> set (fst (insert_stage self eng t uv))"
    using table_stages_events [of ev self eng t uv] by auto
  with k show "if s_archived self \<noteq> None \<or> path t \<noteq> None
      then \<exists>p. path t = Some p \<and> ev = Insert_data_from_file (format_filename eng p)
      else \<exists>u. uv = Some u \<and> ev = Insert_data_from_url u"
    by (auto simp: insert_stage_eq split: option.splits if_splits)
qed

theorem tabular_insert_source_witness:
  "Insert_data_from_file ''raw_data/data.csv'' \<in>
     set (fst (table_stages plain_script (engine_with None) csv_table (Some ''http://x/d''))) \<and>
   path csv_table = Some ''data.csv'' \<and>
   Insert_data_from_url ''http://a/a.csv'' \<in>
     set (fst (table_stages plain_script (engine_with None) own_url_table
                 (Some ''http://a/a.csv''))) \<and>
   s_archived plain_script = None \<and> path own_url_table = None"
  using tabular_insert_source
          [of plain_script "engine_with None" csv_table "Some ''http://x/d''"]
        tabular_insert_source
          [of plain_script "engine_with None" own_url_table "Some ''http://a/a.csv''"]
  by (simp add: eval_defs)

text \<open>
  The claim as stated: a table that was archived is inserted from file. This table
  declares \<^verbatim>\<open>archived\<close> itself and has no \<^verbatim>\<open>path\<close>; the archive stage runs for it and
  the insertion is URL-based.
\<close>

theorem archived_table_url_insert_counterexample:
  "archived zipped_table = Some ''zip'' \<and>
   snd (download (engine_with None)
          (plain_script\<lparr>extract_all := Some True, tables := [(''z'', zipped_table)]\<rparr>)
          None False) =
     ([Get_input, Set_engine_encoding, Create_db,
       Download_files_from_archive ''http://x/data.zip'' None ''zip'' False None,
       Auto_create_table zipped_table ''http://x/data.zip'' None,
       Insert_data_from_url ''http://x/data.zip'', Disconnect_files], Finished)"
  by (simp add: eval_defs)

section \<open>Spatial insertion (claim C7)\<close>

text \<open>
  Claim C7, as the code has it. For a table whose \<^verbatim>\<open>dataset_type\<close> is \<^verbatim>\<open>"RasterDataset"\<close>
  or \<^verbatim>\<open>"VectorDataset"\<close>, no tabular insertion call is ever made in its pass. The
  spatial insertion is invoked when the pass reaches the insertion stage (the archive and
  table-creation stages end normally) and the table has a \<^verbatim>\<open>path\<close>: the pass then ends
  with \<^verbatim>\<open>insert_raster\<close>, respectively \<^verbatim>\<open>insert_vector\<close>, on the formatted path and goes
  on to the next table. When the table's \<^verbatim>\<open>format\<close> is not \<^verbatim>\<open>"tabular"\<close> and the engine
  reports \<^verbatim>\<open>spatial_support == False\<close>, no insertion call of any kind is made for it.
\<close>

theorem spatial_insert_excludes_tabular:
  assumes "dataset_type t = Some d" and "d = ''RasterDataset'' \<or> d = ''VectorDataset''"
  shows "(\<forall>ev\<in>set (fst (table_stages self eng t uv)). kind_of ev \<noteq> Tabular_insert) \<and>
         (\<forall>evs1 evs2 p.
            extract_stage self eng t uv = (evs1, Inr ()) \<and>
            create_stage self eng t uv = (evs2, Inr ()) \<and> path t = Some p \<longrightarrow>
            table_stages self eng t uv =
              (evs1 @ evs2 @
               [if d = ''RasterDataset'' then Insert_raster (format_filename eng p)
                else Insert_vector (format_filename eng p)], Inl Continue_loop)) \<and>
         (format t \<noteq> Some ''tabular'' \<and> spatial_support eng = Some False \<longrightarrow>
            (\<forall>ev\<in>set (fst (table_stages self eng t uv)). \<not> is_insert ev) \<and>
            snd (table_stages self eng t uv) \<noteq> Inl Continue_loop)"
proof (intro conjI ballI allI impI)
  fix ev
  assume m: "ev \<in> set (fst (table_stages self eng t uv))"
  then consider "ev \<in> set (fst (extract_stage self eng t uv) @ fst (create_stage self eng t uv))"
    | "ev \<in> set (fst (insert_stage self eng t uv))"
    using table_stages_events by fastforce
  then show "kind_of ev \<noteq> Tabular_insert"
  proof cases
    case 1
    then show ?thesis using before_insert_kind [of ev self eng t uv] by (simp add: is_insert_def)
  next
    case 2
    then show ?thesis using assms by (auto simp: insert_stage_eq split: option.splits)
  qed
next
  fix evs1 evs2 p
  assume h: "extract_stage self eng t uv = (evs1, Inr ()) \<and>
             create_stage self eng t uv = (evs2, Inr ()) \<and> path t = Some p"
  then have "table_stages self eng t uv =
     (evs1 @ evs2 @ fst (insert_stage self eng t uv), snd (insert_stage self eng t uv))"
    using table_stages_straight by blast
  then show "table_stages self eng t uv =
              (evs1 @ evs2 @
               [if d = ''RasterDataset'' then Insert_raster (format_filename eng p)
                else Insert_vector (format_filename eng p)], Inl Continue_loop)"
    using assms h by (simp add: insert_stage_eq)
next
  fix ev
  assume h: "format t \<noteq> Some ''tabular'' \<and> spatial_support eng = Some False"
    and m: "ev \<in> set (fst (table_stages self eng t uv))"
  from h have ts: "table_stages self eng t uv =
           (case extract_stage self eng t uv of
              (evs, Inl x) \<Rightarrow> (evs, Inl x)
            | (evs, Inr _) \<Rightarrow> (evs @ [Print (no_spatial_message eng)], Inl Return_fn))"
    using table_stages_mismatch by blast
  from m have "ev \<in> set (fst (extract_stage self eng t uv)) \<or> ev = Print (no_spatial_message eng)"
    unfolding ts by (auto split: prod.splits sum.splits)
  then show "\<not> is_insert ev"
    using extract_stage_kind [of ev self eng t uv] by (auto simp: is_insert_def)
next
  assume h: "format t \<noteq> Some ''tabular'' \<and> spatial_support eng = Some False"
  then have ts: "table_stages self eng t uv =
           (case extract_stage self eng t uv of
              (evs, Inl x) \<Rightarrow> (evs, Inl x)
            | (evs, Inr _) \<Rightarrow> (evs @ [Print (no_spatial_message eng)], Inl Return_fn))"
    using table_stages_mismatch by blast
  show "snd (table_stages self eng t uv) \<noteq> Inl Continue_loop"
    unfolding ts using extract_stage_exit [of self eng t uv Continue_loop]
    by (auto split: prod.splits sum.splits)
qed

theorem spatial_insert_excludes_tabular_witness:
  "table_stages plain_script (engine_with (Some True)) vector_table (Some ''http://x/d'') =
     ([] @ [Auto_create_table vector_table ''http://x/d'' (Some ''shape.shp'')] @
      [Insert_vector ''raw_data/shape.shp''], Inl Continue_loop) \<and>
   table_stages plain_script (engine_with None) raster_table (Some ''http://x/d'') =
     ([Insert_raster ''raw_data/r.tif''], Inl Continue_loop) \<and>
   format raster_table \<noteq> Some ''tabular'' \<and>
   \<not> list_ex is_insert
       (fst (table_stages plain_script (engine_with (Some False)) raster_table
               (Some ''http://x/d'')))"
proof -
  have v: "dataset_type vector_table = Some ''VectorDataset''"
    and r: "dataset_type raster_table = Some ''RasterDataset''"
    by (simp_all add: fixture_defs)
  have e: "extract_stage plain_script (engine_with (Some True)) vector_table
             (Some ''http://x/d'') = ([], Inr ())"
    by (simp add: eval_defs)
  have c: "create_stage plain_script (engine_with (Some True)) vector_table
             (Some ''http://x/d'') =
           ([Auto_create_table vector_table ''http://x/d'' (Some ''shape.shp'')], Inr ())"
    by (simp add: eval_defs)
  have p: "path vector_table = Some ''shape.shp''"
    by (simp add: fixture_defs)
  have e': "extract_stage plain_script (engine_with None) raster_table
             (Some ''http://x/d'') = ([], Inr ())"
    by (simp add: eval_defs)
  have c': "create_stage plain_script (engine_with None) raster_table
             (Some ''http://x/d'') = ([], Inr ())"
    by (simp add: eval_defs)
  have p': "path raster_table = Some ''r.tif''"
    and f': "format raster_table \<noteq> Some ''tabular''"
    by (simp_all add: fixture_defs)
  show ?thesis
    using spatial_insert_excludes_tabular
            [OF v, of plain_script "engine_with (Some True)" "Some ''http://x/d''"]
          spatial_insert_excludes_tabular
            [OF r, of plain_script "engine_with None" "Some ''http://x/d''"]
          spatial_insert_excludes_tabular
            [OF r, of plain_script "engine_with (Some False)" "Some ''http://x/d''"]
          e c p e' c' p' f'
    by (simp add: engine_with_def list_ex_iff)
qed

text \<open>
  The claim as stated: for every raster or vector table the spatial insertion is invoked.
  A raster table with a \<^verbatim>\<open>path\<close> on an engine that reports no spatial support: the
  diagnostic is printed and \<^verbatim>\<open>download\<close> returns, \<^verbatim>\<open>insert_raster\<close> is never called.
\<close>

theorem raster_not_inserted_counterexample:
  "dataset_type raster_table = Some ''RasterDataset'' \<and>
   path raster_table = Some ''r.tif'' \<and>
   snd (download (engine_with (Some False)) (plain_script\<lparr>tables := [(''rast'', raster_table)]\<rparr>)
          (Some (engine_with (Some False))) False) =
     ([Get_input, Set_engine_encoding, Create_db,
       Print ''Engine eng does not support spatial processing''], Returned)"
  by (simp add: eval_defs)

section \<open>Archive stage (claim C8)\<close>

text \<open>
  Claim C8, as the code has it. An archive-extraction call occurs in a table's pass only
  if the script or the table has the attribute \<^verbatim>\<open>archived\<close>. When one of them has it and
  the URL is bound, the outcome depends on the file list: if the script has
  \<^verbatim>\<open>extract_all\<close> or the table has \<^verbatim>\<open>path\<close>, the pass starts with the one extraction call
  of the pass, its archive type is the table's when the table declares one and the
  script's otherwise, and with \<^verbatim>\<open>xls_sheets\<close> present its file list is exactly the
  workbook file name; if the script has no \<^verbatim>\<open>extract_all\<close> and the table has no \<^verbatim>\<open>path\<close>,
  line 214 raises \<^verbatim>\<open>AttributeError\<close> before any engine call of the pass, with or without
  \<^verbatim>\<open>xls_sheets\<close>.
\<close>

theorem archive_stage_parameters:
  "(\<forall>ev\<in>set (fst (table_stages self eng t uv)). kind_of ev = Extract \<longrightarrow>
      s_archived self \<noteq> None \<or> archived t \<noteq> None) \<and>
   ((s_archived self \<noteq> None \<or> archived t \<noteq> None) \<and> uv = Some u \<and>
    (extract_all self \<noteq> None \<or> path t \<noteq> None) \<longrightarrow>
      (\<exists>files atype kd an rest.
         fst (table_stages self eng t uv) =
           Download_files_from_archive u files atype kd an # rest \<and>
         (\<forall>ev\<in>set rest. kind_of ev \<noteq> Extract) \<and>
         (case archived t of Some a \<Rightarrow> atype = a | None \<Rightarrow> s_archived self = Some atype) \<and>
         (case xls_sheets t of Some sheets \<Rightarrow> files = Some [snd sheets] | None \<Rightarrow> True))) \<and>
   ((s_archived self \<noteq> None \<or> archived t \<noteq> None) \<and> uv = Some u \<and>
    extract_all self = None \<and> path t = None \<longrightarrow>
      table_stages self eng t uv = ([], Inl (Raise (AttributeError ''path''))))"
proof (intro conjI ballI impI)
  fix ev
  assume m: "ev \<in> set (fst (table_stages self eng t uv))" and k: "kind_of ev = Extract"
  have "ev \<notin> set (fst (create_stage self eng t uv))"
    and "ev \<notin> set (fst (insert_stage self eng t uv))"
    using k create_stage_kind [of ev self eng t uv] insert_stage_kind [of ev self eng t uv]
    by auto
  with m have "ev \<in> set (fst (extract_stage self eng t uv))"
    using table_stages_events [of ev self eng t uv] by blast
  then show "s_archived self \<noteq> None \<or> archived t \<noteq> None"
    by (auto simp: extract_stage_eq split: if_splits)
next
  assume h: "(s_archived self \<noteq> None \<or> archived t \<noteq> None) \<and> uv = Some u \<and>
             (extract_all self \<noteq> None \<or> path t \<noteq> None)"
  let ?files = "case xls_sheets t of
                  Some sheets \<Rightarrow> Some [snd sheets]
                | None \<Rightarrow> (case extract_all self of Some b \<Rightarrow> None | None \<Rightarrow> Some [the (path t)])"
  let ?atype = "case archived t of
                  Some a \<Rightarrow> a
                | None \<Rightarrow> (case s_archived self of Some a \<Rightarrow> a | None \<Rightarrow> ''zip'')"
  let ?kd = "case keep_in_dir self of Some b \<Rightarrow> b | None \<Rightarrow> False"
  let ?rest = "fst (then_do (create_stage self eng t uv) (\<lambda>_. insert_stage self eng t uv))"
  from h have e: "extract_stage self eng t uv =
      ([Download_files_from_archive u ?files ?atype ?kd (archive_name self)], Inr ())"
    by (auto simp: extract_stage_eq process_archived_data_eq)
  have 1: "fst (table_stages self eng t uv) =
      Download_files_from_archive u ?files ?atype ?kd (archive_name self) # ?rest"
    by (simp add: table_stages_def e then_do_Inr)
  have 2: "\<forall>ev\<in>set ?rest. kind_of ev \<noteq> Extract"
    using after_extract_kind by blast
  have 3: "case archived t of Some a \<Rightarrow> ?atype = a | None \<Rightarrow> s_archived self = Some ?atype"
    using h by (auto split: option.splits)
  have 4: "case xls_sheets t of Some sheets \<Rightarrow> ?files = Some [snd sheets] | None \<Rightarrow> True"
    by (simp split: option.splits)
  from 1 2 3 4
  show "\<exists>files atype kd an rest.
         fst (table_stages self eng t uv) =
           Download_files_from_archive u files atype kd an # rest \<and>
         (\<forall>ev\<in>set rest. kind_of ev \<noteq> Extract) \<and>
         (case archived t of Some a \<Rightarrow> atype = a | None \<Rightarrow> s_archived self = Some atype) \<and>
         (case xls_sheets t of Some sheets \<Rightarrow> files = Some [snd sheets] | None \<Rightarrow> True)"
    by blast
next
  assume h: "(s_archived self \<noteq> None \<or> archived t \<noteq> None) \<and> uv = Some u \<and>
             extract_all self = None \<and> path t = None"
  then have "extract_stage self eng t uv = ([], Inl (Raise (AttributeError ''path'')))"
    by (auto simp: extract_stage_eq process_archived_data_eq)
  then show "table_stages self eng t uv = ([], Inl (Raise (AttributeError ''path'')))"
    by (simp add: table_stages_def then_do_Inl)
qed

theorem archive_stage_parameters_witness:
  "fst (table_stages (plain_script\<lparr>s_archived := Some ''zip''\<rparr>) (engine_with None)
          tar_workbook_table (Some ''http://x/d'')) =
     Download_files_from_archive ''http://x/d'' (Some [''book.xlsx'']) ''tar'' False None #
     [Download_file ''http://x/d'' ''book.xlsx'',
      Excel_to_csv ''raw_data/book.xlsx'' ''raw_data/out.csv'' (0, ''book.xlsx'') ''utf-8'',
      Auto_create_table tar_workbook_table ''http://x/d'' (Some ''out.csv''),
      Insert_data_from_file ''raw_data/out.csv'', Disconnect_files] \<and>
   archived csv_table = None \<and> s_archived plain_script = None \<and>
   \<not> list_ex (\<lambda>ev. kind_of ev = Extract)
       (fst (table_stages plain_script (engine_with None) csv_table (Some ''http://x/d''))) \<and>
   archived zipped_workbook_table = Some ''zip'' \<and> path zipped_workbook_table = None \<and>
   extract_all plain_script = None \<and>
   table_stages plain_script (engine_with None) zipped_workbook_table (Some ''http://x/d'') =
     ([], Inl (Raise (AttributeError ''path'')))"
  using archive_stage_parameters
          [of "plain_script\<lparr>s_archived := Some ''zip''\<rparr>" "engine_with None"
              tar_workbook_table "Some ''http://x/d''" "''http://x/d''"]
        archive_stage_parameters
          [of plain_script "engine_with None" csv_table "Some ''http://x/d''" "''http://x/d''"]
        archive_stage_parameters
          [of plain_script "engine_with None" zipped_workbook_table "Some ''http://x/d''"
              "''http://x/d''"]
  by (simp add: eval_defs)

text \<open>
  The claim as stated: the archive stage runs whenever the table declares \<^verbatim>\<open>archived\<close>,
  and \<^verbatim>\<open>xls_sheets\<close> forces the file list whatever the general list is. This table
  declares \<^verbatim>\<open>archived\<close> and \<^verbatim>\<open>xls_sheets\<close> and has no \<^verbatim>\<open>path\<close>: the general list is built
  first, reading \<^verbatim>\<open>table_obj.path\<close>, and the run fails with no extraction call.
\<close>

theorem archive_without_path_counterexample:
  "archived zipped_workbook_table = Some ''zip'' \<and>
   xls_sheets zipped_workbook_table = Some (0, ''book.xlsx'') \<and>
   snd (download (engine_with None)
          (plain_script\<lparr>tables := [(''z'', zipped_workbook_table)]\<rparr>)
          (Some (engine_with None)) False) =
     ([Get_input, Set_engine_encoding, Create_db], Failed (AttributeError ''path''))"
  by (simp add: eval_defs)

section \<open>Determinism of the decisions (claim C9)\<close>

text \<open>
  Claim C9: the stage decisions for a table, evaluated twice on the same table
  descriptor, dataset descriptor and engine, give the same calls with the same arguments.
  For a table that resolves a URL this holds (\<open>table_pass_history_independent\<close>), and a
  whole run depends on the script and on the engine's name, \<^verbatim>\<open>spatial_support\<close> and
  \<^verbatim>\<open>format_filename\<close> only (\<open>download_engine_frame\<close>). The decisions for one table also
  read the local \<^verbatim>\<open>url\<close> left by the iteration before, though. In the run below the
  dataset \<^verbatim>\<open>url\<close> is present and empty and the same descriptor without \<^verbatim>\<open>url\<close> is
  stored under the keys \<^verbatim>\<open>b\<close> and \<^verbatim>\<open>d\<close>: its table is created and filled from the URL of
  \<^verbatim>\<open>a\<close> the first time and from the URL of \<^verbatim>\<open>c\<close> the second time.
\<close>

theorem same_descriptor_two_urls:
  "snd (download (engine_with None)
          (plain_script\<lparr>s_url := Some [],
             tables := [(''a'', own_url_table), (''b'', no_url_table),
                        (''c'', other_url_table), (''d'', no_url_table)]\<rparr>)
          (Some (engine_with None)) False) =
     ([Get_input, Set_engine_encoding, Create_db,
       Auto_create_table own_url_table ''http://a/a.csv'' None,
       Insert_data_from_url ''http://a/a.csv'', Disconnect_files,
       Auto_create_table no_url_table ''http://a/a.csv'' None,
       Insert_data_from_url ''http://a/a.csv'', Disconnect_files,
       Auto_create_table other_url_table ''http://c/c.csv'' None,
       Insert_data_from_url ''http://c/c.csv'', Disconnect_files,
       Auto_create_table no_url_table ''http://c/c.csv'' None,
       Insert_data_from_url ''http://c/c.csv'', Disconnect_files], Finished)"
  by (simp add: eval_defs)

section \<open>Engine without the \<^verbatim>\<open>spatial_support\<close> attribute (claim C10)\<close>

text \<open>
  Claim C10. For a table whose \<^verbatim>\<open>format\<close> is absent or not \<^verbatim>\<open>"tabular"\<close>, on an engine
  that has no attribute \<^verbatim>\<open>spatial_support\<close>, the table-creation stage does nothing: the
  pass is the archive stage followed directly by the insertion stage, with no conversion
  or table-creation call, no diagnostic, and no \<^verbatim>\<open>return\<close>.
\<close>

theorem no_spatial_support_attribute_skips_creation:
  assumes "format t \<noteq> Some ''tabular''" and "spatial_support eng = None"
  shows "create_stage self eng t uv = ([], Inr ()) \<and>
         table_stages self eng t uv =
           then_do (extract_stage self eng t uv) (\<lambda>_. insert_stage self eng t uv) \<and>
         (\<forall>ev\<in>set (fst (table_stages self eng t uv)).
            kind_of ev \<noteq> Create \<and> kind_of ev \<noteq> Convert \<and> kind_of ev \<noteq> Diagnostic) \<and>
         snd (table_stages self eng t uv) \<noteq> Inl Return_fn"
proof -
  have c: "create_stage self eng t uv = ([], Inr ())"
    using assms by (simp add: create_stage_eq)
  have ts: "table_stages self eng t uv =
           then_do (extract_stage self eng t uv) (\<lambda>_. insert_stage self eng t uv)"
    by (simp add: table_stages_def c then_do_Inr [of "([], Inr ())"])
  have k: "\<forall>ev\<in>set (fst (table_stages self eng t uv)).
            kind_of ev \<noteq> Create \<and> kind_of ev \<noteq> Convert \<and> kind_of ev \<noteq> Diagnostic"
  proof
    fix ev
    assume "ev \<in> set (fst (table_stages self eng t uv))"
    then have "ev \<in> set (fst (extract_stage self eng t uv)) \<or>
               ev \<in> set (fst (insert_stage self eng t uv))"
      using table_stages_events [of ev self eng t uv] c by simp
    then show "kind_of ev \<noteq> Create \<and> kind_of ev \<noteq> Convert \<and> kind_of ev \<noteq> Diagnostic"
      using extract_stage_kind [of ev self eng t uv] insert_stage_kind [of ev self eng t uv]
      by auto
  qed
  have r: "snd (table_stages self eng t uv) \<noteq> Inl Return_fn"
  proof
    assume "snd (table_stages self eng t uv) = Inl Return_fn"
    then have "snd (extract_stage self eng t uv) = Inl Return_fn \<or>
               snd (insert_stage self eng t uv) = Inl Return_fn"
      unfolding ts by (auto dest!: then_do_snd_Inl)
    then show False
      using extract_stage_exit [of self eng t uv Return_fn]
        insert_stage_exit [of self eng t uv Return_fn] by auto
  qed
  from c ts k r show ?thesis by blast
qed

theorem no_spatial_support_attribute_skips_creation_witness:
  "create_stage plain_script (engine_with None) raster_table (Some ''http://x/d'') =
     ([], Inr ()) \<and>
   table_stages plain_script (engine_with None) raster_table (Some ''http://x/d'') =
     ([Insert_raster ''raw_data/r.tif''], Inl Continue_loop) \<and>
   table_stages plain_script (engine_with None) (bare_table\<lparr>dataset_type := Some ''T''\<rparr>)
     (Some ''http://x/d'') =
     ([Insert_data_from_url ''http://x/d'', Disconnect_files], Inr ())"
proof -
  have f: "format raster_table \<noteq> Some ''tabular''"
    and f': "format (bare_table\<lparr>dataset_type := Some ''T''\<rparr>) \<noteq> Some ''tabular''"
    and s: "spatial_support (engine_with None) = None"
    by (simp_all add: fixture_defs)
  show ?thesis
    using no_spatial_support_attribute_skips_creation
            [OF f s, of plain_script "Some ''http://x/d''"]
          no_spatial_support_attribute_skips_creation
            [OF f' s, of plain_script "Some ''http://x/d''"]
    by (simp add: eval_defs)
qed

end
